theory Spec2Isabelle
  imports Main
begin

section \<open>Python values\<close>

text \<open>
  The script \<^verbatim>\<open>create-multiple-vms.py\<close> handles three kinds of values: strings that come
  from the command line, the literal dictionaries of its template table, and whatever
  \<^verbatim>\<open>json.load\<close> and \<^verbatim>\<open>response.json()\<close> hand back. All of them are values of the
  datatype below. A dictionary is an association list in insertion order; a dictionary
  built by Python has distinct keys, and on a list with a repeated key the lookups below
  take the first entry. \<open>JFloat m e\<close> is the double \<open>m * 2 ^ e\<close>. The non-finite numbers
  (\<^verbatim>\<open>NaN\<close>, \<^verbatim>\<open>Infinity\<close>) that \<^verbatim>\<open>json.load\<close> also accepts are left out: whether a
  request that contains one is sent at all depends on the version of the HTTP library.
\<close>

datatype json =
    JNull
  | JBool bool
  | JInt int
  | JFloat int int
  | JStr string
  | JArr "json list"
  | JObj "(string \<times> json) list"

datatype exn =
    KeyError string
  | TypeError
  | AttributeError
  | OverflowError
  | OSError
  | ValueError

text \<open>Truth value of a Python object, as \<^verbatim>\<open>or\<close>, \<^verbatim>\<open>if\<close> and \<^verbatim>\<open>not\<close> take it.\<close>

fun truthy :: "json \<Rightarrow> bool" where
  "truthy JNull = False"
| "truthy (JBool b) = b"
| "truthy (JInt n) = (n \<noteq> 0)"
| "truthy (JFloat m e) = (m \<noteq> 0)"
| "truthy (JStr s) = (s \<noteq> [])"
| "truthy (JArr xs) = (xs \<noteq> [])"
| "truthy (JObj kvs) = (kvs \<noteq> [])"

text \<open>An optional command-line argument: argparse stores \<^verbatim>\<open>None\<close> when it is not given.\<close>

fun opt_str :: "string option \<Rightarrow> json" where
  "opt_str None = JNull"
| "opt_str (Some s) = JStr s"

text \<open>\<^verbatim>\<open>d[key]\<close> with a string key.\<close>

fun py_getitem :: "json \<Rightarrow> string \<Rightarrow> exn + json" where
  "py_getitem (JObj kvs) k = (case map_of kvs k of None \<Rightarrow> Inl (KeyError k) | Some v \<Rightarrow> Inr v)"
| "py_getitem _ k = Inl TypeError"

text \<open>\<^verbatim>\<open>d.get(key, default)\<close>: only a dictionary has the method.\<close>

fun py_get :: "json \<Rightarrow> string \<Rightarrow> json \<Rightarrow> exn + json" where
  "py_get (JObj kvs) k d = (case map_of kvs k of None \<Rightarrow> Inr d | Some v \<Rightarrow> Inr v)"
| "py_get _ k d = Inl AttributeError"

text \<open>
  A string is the sequence of the bytes of its UTF-8 encoding, and Python counts and
  iterates code points: a code point is a lead byte together with the continuation bytes
  (\<open>0x80\<close> to \<open>0xBF\<close>) that follow it.
\<close>

definition is_continuation :: "char \<Rightarrow> bool" where
  "is_continuation ch = (128 \<le> (of_char ch :: nat) \<and> (of_char ch :: nat) < 192)"

function code_points :: "string \<Rightarrow> string list" where
  "code_points [] = []"
| "code_points (ch # cs) =
     (ch # takeWhile is_continuation cs) # code_points (dropWhile is_continuation cs)"
  by pat_completeness auto

termination
  by (relation "measure length") (auto simp add: length_dropWhile_le less_Suc_eq_le)

text \<open>\<^verbatim>\<open>len(v)\<close> and \<^verbatim>\<open>for x in v\<close>.\<close>

fun py_len :: "json \<Rightarrow> exn + nat" where
  "py_len (JStr s) = Inr (length (code_points s))"
| "py_len (JArr xs) = Inr (length xs)"
| "py_len (JObj kvs) = Inr (length kvs)"
| "py_len _ = Inl TypeError"

fun py_iter :: "json \<Rightarrow> exn + json list" where
  "py_iter (JStr s) = Inr (map JStr (code_points s))"
| "py_iter (JArr xs) = Inr xs"
| "py_iter (JObj kvs) = Inr (map (\<lambda>kv. JStr (fst kv)) kvs)"
| "py_iter _ = Inl TypeError"

text \<open>
  Storing under a key, as a dictionary display does entry by entry: a key that is already
  there keeps its place and takes the new value.
\<close>

fun dict_set :: "(string \<times> json) list \<Rightarrow> string \<Rightarrow> json \<Rightarrow> (string \<times> json) list" where
  "dict_set [] k v = [(k, v)]"
| "dict_set ((k', v') # kvs) k v =
     (if k' = k then (k, v) # kvs else (k', v') # dict_set kvs k v)"

text \<open>\<^verbatim>\<open>{**d, ...}\<close>: the entries of \<open>extra\<close> stored one after the other.\<close>

fun dict_update :: "(string \<times> json) list \<Rightarrow> (string \<times> json) list \<Rightarrow> (string \<times> json) list" where
  "dict_update d [] = d"
| "dict_update d ((k, v) # extra) = dict_update (dict_set d k v) extra"

text \<open>\<^verbatim>\<open>sep.join(parts)\<close>.\<close>

fun join :: "string \<Rightarrow> string list \<Rightarrow> string" where
  "join sep [] = []"
| "join sep [s] = s"
| "join sep (s # t # ss) = s @ sep @ join sep (t # ss)"

section \<open>Configuration and the template table\<close>

definition API_BASE_URL :: string where
  "API_BASE_URL = ''http://localhost:8080/api/v1''"

definition DEFAULT_TIMEOUT :: nat where
  "DEFAULT_TIMEOUT = 30"

definition VM_TEMPLATES :: "(string \<times> (string \<times> json) list) list" where
  "VM_TEMPLATES =
    [(''windows-11-basic'',
       [(''template'', JStr ''windows-11''),
        (''cpu'', JObj [(''count'', JInt 4), (''cores'', JInt 2), (''threads'', JInt 1),
                        (''socket'', JInt 2)]),
        (''memory'', JObj [(''sizeBytes'', JInt (8 * 1024 * 1024 * 1024))]),
        (''disk'', JObj [(''sizeBytes'', JInt (100 * 1024 * 1024 * 1024)),
                         (''format'', JStr ''qcow2''), (''bus'', JStr ''sata'')])]),
     (''windows-11-developer'',
       [(''template'', JStr ''windows-11''),
        (''cpu'', JObj [(''count'', JInt 8), (''cores'', JInt 4), (''threads'', JInt 1),
                        (''socket'', JInt 2)]),
        (''memory'', JObj [(''sizeBytes'', JInt (16 * 1024 * 1024 * 1024))]),
        (''disk'', JObj [(''sizeBytes'', JInt (250 * 1024 * 1024 * 1024)),
                         (''format'', JStr ''qcow2''), (''bus'', JStr ''virtio'')])]),
     (''windows-server-web'',
       [(''template'', JStr ''windows-server-2022''),
        (''cpu'', JObj [(''count'', JInt 4), (''cores'', JInt 2), (''threads'', JInt 1),
                        (''socket'', JInt 2)]),
        (''memory'', JObj [(''sizeBytes'', JInt (8 * 1024 * 1024 * 1024))]),
        (''disk'', JObj [(''sizeBytes'', JInt (80 * 1024 * 1024 * 1024)),
                         (''format'', JStr ''qcow2''), (''bus'', JStr ''virtio'')])]),
     (''windows-server-database'',
       [(''template'', JStr ''windows-server-2022''),
        (''cpu'', JObj [(''count'', JInt 8), (''cores'', JInt 4), (''threads'', JInt 1),
                        (''socket'', JInt 2)]),
        (''memory'', JObj [(''sizeBytes'', JInt (32 * 1024 * 1024 * 1024))]),
        (''disk'', JObj [(''sizeBytes'', JInt (500 * 1024 * 1024 * 1024)),
                         (''format'', JStr ''qcow2''), (''bus'', JStr ''virtio'')])])]"

text \<open>
  \<^verbatim>\<open>template_type in VM_TEMPLATES\<close>. The keys are strings, so a hashable value of another
  type is never a member; a list or a dictionary is unhashable and the test itself raises.
\<close>

fun in_templates :: "json \<Rightarrow> exn + bool" where
  "in_templates (JStr t) = Inr (map_of VM_TEMPLATES t \<noteq> None)"
| "in_templates (JArr xs) = Inl TypeError"
| "in_templates (JObj kvs) = Inl TypeError"
| "in_templates _ = Inr False"

text \<open>An integer field of the \<^verbatim>\<open>cpu\<close> block of a profile, when it is there.\<close>

definition cpu_field :: "(string \<times> json) list \<Rightarrow> string \<Rightarrow> int option" where
  "cpu_field profile k =
     (case map_of profile ''cpu'' of
        Some (JObj cpu) \<Rightarrow> (case map_of cpu k of Some (JInt n) \<Rightarrow> Some n | _ \<Rightarrow> None)
      | _ \<Rightarrow> None)"

definition cpu_consistent :: "(string \<times> json) list \<Rightarrow> bool" where
  "cpu_consistent profile =
     (case (cpu_field profile ''count'', cpu_field profile ''cores'',
            cpu_field profile ''threads'', cpu_field profile ''socket'') of
        (Some count, Some cores, Some threads, Some socket) \<Rightarrow>
          0 < count \<and> 0 < cores \<and> 0 < threads \<and> 0 < socket \<and>
          count = cores * threads * socket
      | _ \<Rightarrow> False)"

section \<open>The control plane and the effects of a run\<close>

text \<open>
  A run talks to the world in three ways: it sends HTTP requests through a
  \<^verbatim>\<open>requests.Session\<close>, it prints lines, and it sleeps. The trace of a run is the list of
  these events in the order they happen. The control plane is a function from the
  requests sent so far (the latest one last) to what the session call does: it raises a
  transport exception, or it returns a response.
\<close>

datatype http_method = GET | POST | PUT | DELETE

record request =
  http_method :: http_method
  url :: string
  headers :: "(string \<times> string) list"
  body :: "json option"
  timeout :: nat

record response =
  status_code :: int
  resp_text :: string
  resp_json :: "string + json"
  \<comment> \<open>\<open>resp_text\<close> is \<^verbatim>\<open>response.text\<close>. \<open>resp_json\<close> is what \<^verbatim>\<open>response.json()\<close> does:
      \<open>Inr v\<close> returns the parsed body, \<open>Inl msg\<close> raises a decoding error whose
      \<^verbatim>\<open>str\<close> is \<open>msg\<close>.\<close>

datatype reply = Fault string | Reply response
  \<comment> \<open>\<open>Fault msg\<close>: the session call raises an exception \<open>e\<close> with \<^verbatim>\<open>str(e) = msg\<close>\<close>

type_synonym env = "request list \<Rightarrow> reply"

text \<open>
  A printed line is the list of the pieces of its f-string. \<open>Text s\<close> is literal text or
  an interpolated string; \<open>Str_of v\<close> is \<^verbatim>\<open>str(v)\<close> of a value that is not a string;
  \<open>In_GiB n v\<close> is \<^verbatim>\<open>v / (1024**3)\<close> printed with \<open>n\<close> decimals.
\<close>

datatype frag = Text string | Str_of json | In_GiB nat json

datatype event = Call request | Print "frag list" | Print_help | Sleep nat

fun interp :: "json \<Rightarrow> frag" where
  "interp (JStr s) = Text s"
| "interp v = Str_of v"

fun calls :: "event list \<Rightarrow> request list" where
  "calls [] = []"
| "calls (Call rq # tr) = rq # calls tr"
| "calls (_ # tr) = calls tr"

definition send :: "env \<Rightarrow> request \<Rightarrow> event list \<Rightarrow> reply \<times> event list" where
  "send world rq tr = (world (calls tr @ [rq]), tr @ [Call rq])"

section \<open>LibGoClient\<close>

record client =
  base_url :: string
  session_headers :: "(string \<times> string) list"

text \<open>\<^verbatim>\<open>s.rstrip(chars)\<close> and \<^verbatim>\<open>s.replace(old, new)\<close>.\<close>

definition rstrip :: "string \<Rightarrow> string \<Rightarrow> string" where
  "rstrip chars s = rev (dropWhile (\<lambda>c. c \<in> set chars) (rev s))"

fun replace :: "string \<Rightarrow> string \<Rightarrow> string \<Rightarrow> string" where
  "replace old new [] = (if old = [] then new else [])"
| "replace old new (c # cs) =
     (if old = [] then new @ c # replace old new cs
      else if take (length old) (c # cs) = old
        then new @ replace old new (drop (length old) (c # cs))
      else c # replace old new cs)"

definition LibGoClient :: "string \<Rightarrow> string option \<Rightarrow> client" where
  "LibGoClient api_url auth_token =
     \<lparr>base_url = rstrip ''/'' api_url,
      session_headers =
        (case auth_token of
           None \<Rightarrow> []
         | Some t \<Rightarrow> if t \<noteq> [] then [(''Authorization'', ''Bearer '' @ t)] else [])\<rparr>"

definition session_request ::
  "client \<Rightarrow> http_method \<Rightarrow> string \<Rightarrow> json option \<Rightarrow> request" where
  "session_request c m u b =
     \<lparr>http_method = m, url = u, headers = session_headers c, body = b,
      timeout = DEFAULT_TIMEOUT\<rparr>"

text \<open>The two error dictionaries of the client.\<close>

definition rejected :: "response \<Rightarrow> json" where
  "rejected r = JObj [(''error'', JStr (resp_text r)), (''status_code'', JInt (status_code r))]"

definition raised :: "string \<Rightarrow> json" where
  "raised msg = JObj [(''error'', JStr msg)]"

definition check_health :: "env \<Rightarrow> client \<Rightarrow> event list \<Rightarrow> bool \<times> event list" where
  "check_health world c tr =
     (case send world
             (session_request c GET (replace ''/api/v1'' [] (base_url c) @ ''/health'') None) tr of
        (Fault msg, tr') \<Rightarrow>
          (False, tr' @ [Print [Text ''Health check failed: '', Text msg]])
      | (Reply r, tr') \<Rightarrow> (status_code r = 200, tr'))"

definition create_vm ::
  "env \<Rightarrow> client \<Rightarrow> json \<Rightarrow> event list \<Rightarrow> (bool \<times> json) \<times> event list" where
  "create_vm world c vm_config tr =
     (case send world (session_request c POST (base_url c @ ''/vms'') (Some vm_config)) tr of
        (Fault msg, tr') \<Rightarrow> ((False, raised msg), tr')
      | (Reply r, tr') \<Rightarrow>
          if status_code r = 201
          then (case resp_json r of
                  Inr v \<Rightarrow> ((True, v), tr')
                | Inl msg \<Rightarrow> ((False, raised msg), tr'))
          else ((False, rejected r), tr'))"

definition start_vm ::
  "env \<Rightarrow> client \<Rightarrow> string \<Rightarrow> event list \<Rightarrow> (bool \<times> json) \<times> event list" where
  "start_vm world c vm_name tr =
     (case send world
             (session_request c PUT (base_url c @ ''/vms/'' @ vm_name @ ''/start'') None) tr of
        (Fault msg, tr') \<Rightarrow> ((False, raised msg), tr')
      | (Reply r, tr') \<Rightarrow>
          if status_code r = 200
          then (case resp_json r of
                  Inr v \<Rightarrow> ((True, v), tr')
                | Inl msg \<Rightarrow> ((False, raised msg), tr'))
          else ((False, rejected r), tr'))"

definition get_vm ::
  "env \<Rightarrow> client \<Rightarrow> string \<Rightarrow> event list \<Rightarrow> (bool \<times> json) \<times> event list" where
  "get_vm world c vm_name tr =
     (case send world (session_request c GET (base_url c @ ''/vms/'' @ vm_name) None) tr of
        (Fault msg, tr') \<Rightarrow> ((False, raised msg), tr')
      | (Reply r, tr') \<Rightarrow>
          if status_code r = 200
          then (case resp_json r of
                  Inr v \<Rightarrow> ((True, v), tr')
                | Inl msg \<Rightarrow> ((False, raised msg), tr'))
          else ((False, rejected r), tr'))"

text \<open>
  \<^verbatim>\<open>str(e)\<close> of the AttributeError that \<^verbatim>\<open>data.get\<close> raises when the parsed body is
  not a dictionary.
\<close>

fun type_name :: "json \<Rightarrow> string" where
  "type_name JNull = ''NoneType''"
| "type_name (JBool b) = ''bool''"
| "type_name (JInt n) = ''int''"
| "type_name (JFloat m e) = ''float''"
| "type_name (JStr s) = ''str''"
| "type_name (JArr xs) = ''list''"
| "type_name (JObj kvs) = ''dict''"

definition no_attribute :: "json \<Rightarrow> string \<Rightarrow> string" where
  "no_attribute v a =
     CHR 0x27 # type_name v @ CHR 0x27 # '' object has no attribute '' @ CHR 0x27 # a @ [CHR 0x27]"

definition list_vms :: "env \<Rightarrow> client \<Rightarrow> event list \<Rightarrow> (bool \<times> json) \<times> event list" where
  "list_vms world c tr =
     (case send world (session_request c GET (base_url c @ ''/vms'') None) tr of
        (Fault msg, tr') \<Rightarrow>
          ((False, JArr []), tr' @ [Print [Text ''List VMs failed: '', Text msg]])
      | (Reply r, tr') \<Rightarrow>
          if status_code r = 200
          then (case resp_json r of
                  Inl msg \<Rightarrow>
                    ((False, JArr []), tr' @ [Print [Text ''List VMs failed: '', Text msg]])
                | Inr data \<Rightarrow>
                    (case py_get data ''vms'' (JArr []) of
                       Inr vms \<Rightarrow> ((True, vms), tr')
                     | Inl e \<Rightarrow>
                         ((False, JArr []),
                          tr' @ [Print [Text ''List VMs failed: '',
                                        Text (no_attribute data ''get'')]])))
          else ((False, JArr []), tr'))"

definition create_snapshot ::
  "env \<Rightarrow> client \<Rightarrow> string \<Rightarrow> string \<Rightarrow> json \<Rightarrow> bool \<Rightarrow> event list
     \<Rightarrow> (bool \<times> json) \<times> event list" where
  "create_snapshot world c vm_name snapshot_name description include_memory tr =
     (let snapshot_config =
            JObj [(''name'', JStr snapshot_name), (''description'', description),
                  (''include_memory'', JBool include_memory)]
      in case send world
                (session_request c POST (base_url c @ ''/vms/'' @ vm_name @ ''/snapshots'')
                   (Some snapshot_config)) tr of
           (Fault msg, tr') \<Rightarrow> ((False, raised msg), tr')
         | (Reply r, tr') \<Rightarrow>
             if status_code r = 201
             then (case resp_json r of
                     Inr v \<Rightarrow> ((True, v), tr')
                   | Inl msg \<Rightarrow> ((False, raised msg), tr'))
             else ((False, rejected r), tr'))"

definition delete_vm ::
  "env \<Rightarrow> client \<Rightarrow> string \<Rightarrow> event list \<Rightarrow> (bool \<times> json) \<times> event list" where
  "delete_vm world c vm_name tr =
     (case send world (session_request c DELETE (base_url c @ ''/vms/'' @ vm_name) None) tr of
        (Fault msg, tr') \<Rightarrow> ((False, raised msg), tr')
      | (Reply r, tr') \<Rightarrow>
          if status_code r = 200 \<or> status_code r = 204
          then ((True, JObj [(''message'', JStr ''VM deleted successfully'')]), tr')
          else ((False, rejected r), tr'))"

section \<open>Creating one Windows VM\<close>

definition check_mark :: string where
  "check_mark = [CHR 0xE2, CHR 0x9C, CHR 0x93]"

definition ballot_x :: string where
  "ballot_x = [CHR 0xE2, CHR 0x9C, CHR 0x97]"

text \<open>\<^verbatim>\<open>VM_TEMPLATES[template_type]\<close>.\<close>

fun templates_getitem :: "json \<Rightarrow> exn + (string \<times> json) list" where
  "templates_getitem (JStr t) =
     (case map_of VM_TEMPLATES t of None \<Rightarrow> Inl (KeyError t) | Some p \<Rightarrow> Inr p)"
| "templates_getitem (JArr xs) = Inl TypeError"
| "templates_getitem (JObj kvs) = Inl TypeError"
| "templates_getitem _ = Inl (KeyError [])"

text \<open>\<^verbatim>\<open>d[a][b]\<close>.\<close>

definition item2 :: "json \<Rightarrow> string \<Rightarrow> string \<Rightarrow> exn + json" where
  "item2 d a b = (case py_getitem d a of Inl e \<Rightarrow> Inl e | Inr x \<Rightarrow> py_getitem x b)"

text \<open>
  \<^verbatim>\<open>v / (1024**3)\<close> inside a format field with \<open>n\<close> decimals. A string, a list, a
  dictionary or \<^verbatim>\<open>None\<close> cannot be divided; an integer whose quotient rounds to a value
  beyond the largest double raises OverflowError.
\<close>

fun in_gib :: "nat \<Rightarrow> json \<Rightarrow> exn + frag" where
  "in_gib n (JInt i) =
     (if 2 ^ 1054 - 2 ^ 1000 \<le> \<bar>i\<bar> then Inl OverflowError else Inr (In_GiB n (JInt i)))"
| "in_gib n (JBool b) = Inr (In_GiB n (JBool b))"
| "in_gib n (JFloat m e) = Inr (In_GiB n (JFloat m e))"
| "in_gib n _ = Inl TypeError"

text \<open>
  The dictionary display of \<^verbatim>\<open>create_windows_vm\<close>: name, description, the entries of the
  template, then the two fixed blocks.
\<close>

definition vm_config_of ::
  "json \<Rightarrow> string \<Rightarrow> json \<Rightarrow> (string \<times> json) list \<Rightarrow> json" where
  "vm_config_of name template_type description template =
     JObj
      (dict_set
        (dict_set
          (dict_update
            (dict_set
              (dict_set [] ''name'' name)
              ''description''
              (if truthy description then description
               else JStr (''Windows VM - '' @ template_type)))
            template)
          ''network''
          (JObj [(''type'', JStr ''network''), (''source'', JStr ''default''),
                 (''model'', JStr ''virtio'')]))
        ''cloudInit''
        (JObj [(''enabled'', JBool False)]))"

definition create_windows_vm ::
  "env \<Rightarrow> client \<Rightarrow> json \<Rightarrow> json \<Rightarrow> json \<Rightarrow> event list \<Rightarrow> (exn + bool) \<times> event list" where
  "create_windows_vm world c name template_type description tr =
     (case in_templates template_type of
        Inl e \<Rightarrow> (Inl e, tr)
      | Inr False \<Rightarrow>
          (Inr False,
           tr @ [Print [Text ''Unknown template type: '', interp template_type],
                 Print [Text ''Available templates: '',
                        Text (join '', '' (map fst VM_TEMPLATES))]])
      | Inr True \<Rightarrow>
         (case templates_getitem template_type of
            Inl e \<Rightarrow> (Inl e, tr)
          | Inr template \<Rightarrow>
             let vm_config =
                   vm_config_of name (case template_type of JStr t \<Rightarrow> t | _ \<Rightarrow> [])
                     description template;
                 tr1 = tr @ [Print [Text ''\<newline>Creating VM: '', interp name],
                             Print [Text ''Template: '', interp template_type]]
             in
             (case item2 (JObj template) ''cpu'' ''count'' of
                Inl e \<Rightarrow> (Inl e, tr1)
              | Inr cpu_count \<Rightarrow>
             let tr2 = tr1 @ [Print [Text ''CPU: '', interp cpu_count, Text '' cores'']] in
             (case item2 (JObj template) ''memory'' ''sizeBytes'' of
                Inl e \<Rightarrow> (Inl e, tr2)
              | Inr mem \<Rightarrow>
             (case in_gib 0 mem of
                Inl e \<Rightarrow> (Inl e, tr2)
              | Inr mem_gb \<Rightarrow>
             let tr3 = tr2 @ [Print [Text ''Memory: '', mem_gb, Text '' GB'']] in
             (case item2 (JObj template) ''disk'' ''sizeBytes'' of
                Inl e \<Rightarrow> (Inl e, tr3)
              | Inr disk \<Rightarrow>
             (case in_gib 0 disk of
                Inl e \<Rightarrow> (Inl e, tr3)
              | Inr disk_gb \<Rightarrow>
             let tr4 = tr3 @ [Print [Text ''Disk: '', disk_gb, Text '' GB'']] in
             (case create_vm world c vm_config tr4 of
                ((True, result), tr5) \<Rightarrow>
                  (case py_get result ''vm'' (JObj []) of
                     Inl e \<Rightarrow> (Inl e, tr5)
                   | Inr vm \<Rightarrow>
                  let tr6 = tr5 @ [Print [Text (check_mark @ '' VM created successfully!'')]] in
                  (case py_get vm ''uuid'' JNull of
                     Inl e \<Rightarrow> (Inl e, tr6)
                   | Inr uuid \<Rightarrow>
                  let tr7 = tr6 @ [Print [Text ''  UUID: '', interp uuid]] in
                  (case py_get vm ''status'' JNull of
                     Inl e \<Rightarrow> (Inl e, tr7)
                   | Inr status \<Rightarrow>
                       (Inr True, tr7 @ [Print [Text ''  Status: '', interp status]]))))
              | ((False, result), tr5) \<Rightarrow>
                  (Inr False,
                   tr5 @ [Print [Text (ballot_x @ '' Failed to create VM: ''),
                                 interp result]])))))))))"

section \<open>The command line\<close>

datatype command =
    Create string string "string option" bool
  | Create_multiple "string option"
  | List_vms
  | Delete string
  | Start string
  | Snapshot string string "string option" bool
  | No_command
  \<comment> \<open>\<open>Create name template description start\<close>, \<open>Create_multiple config_file\<close>,
      \<open>Snapshot vm_name snapshot_name description include_memory\<close>; \<open>No_command\<close> is a
      command line without a subcommand. The arguments are those that
      \<^verbatim>\<open>parse_args\<close> returns: a command line that argparse refuses ends the process before
      \<^verbatim>\<open>main\<close> does anything else.\<close>

record args =
  api_url :: string
  token :: "string option"
  command :: command

text \<open>
  What \<^verbatim>\<open>open(path)\<close> followed by \<^verbatim>\<open>json.load\<close> does for a path: the file cannot be
  opened (OSError), its content is not JSON (a ValueError), or it parses to a value.
\<close>

datatype file_result = Unreadable | Not_json | Loaded json

type_synonym files = "string \<Rightarrow> file_result"

datatype status = Exit int | Uncaught exn
  \<comment> \<open>\<open>Exit n\<close>: the process ends with status \<open>n\<close> (0 when \<^verbatim>\<open>main\<close> returns);
      \<open>Uncaught e\<close>: \<open>e\<close> leaves \<^verbatim>\<open>main\<close> and the interpreter ends with a traceback\<close>

text \<open>The loop over the configurations of a file.\<close>

fun create_from_configs ::
  "env \<Rightarrow> client \<Rightarrow> json list \<Rightarrow> event list \<Rightarrow> exn option \<times> event list" where
  "create_from_configs world c [] tr = (None, tr)"
| "create_from_configs world c (config # rest) tr =
     (case py_getitem config ''name'' of
        Inl e \<Rightarrow> (Some e, tr)
      | Inr name \<Rightarrow>
     (case py_getitem config ''template'' of
        Inl e \<Rightarrow> (Some e, tr)
      | Inr template \<Rightarrow>
     (case py_get config ''description'' (JStr []) of
        Inl e \<Rightarrow> (Some e, tr)
      | Inr description \<Rightarrow>
     (case create_windows_vm world c name template description tr of
        (Inl e, tr') \<Rightarrow> (Some e, tr')
      | (Inr success, tr') \<Rightarrow> create_from_configs world c rest (tr' @ [Sleep 2])))))"

text \<open>The loop over the default set.\<close>

definition default_vms :: "(string \<times> string \<times> string) list" where
  "default_vms =
     [(''win11-workstation'', ''windows-11-basic'', ''Windows 11 Workstation''),
      (''win11-dev'', ''windows-11-developer'', ''Windows 11 Development''),
      (''winserver-web'', ''windows-server-web'', ''Windows Server - Web Server''),
      (''winserver-db'', ''windows-server-database'', ''Windows Server - Database'')]"

fun create_from_tuples ::
  "env \<Rightarrow> client \<Rightarrow> (string \<times> string \<times> string) list \<Rightarrow> event list
     \<Rightarrow> exn option \<times> event list" where
  "create_from_tuples world c [] tr = (None, tr)"
| "create_from_tuples world c ((name, template, description) # rest) tr =
     (case create_windows_vm world c (JStr name) (JStr template) (JStr description) tr of
        (Inl e, tr') \<Rightarrow> (Some e, tr')
      | (Inr success, tr') \<Rightarrow> create_from_tuples world c rest (tr' @ [Sleep 2]))"

text \<open>The loop of the \<^verbatim>\<open>list\<close> command over the VMs of the answer.\<close>

fun print_vms :: "json list \<Rightarrow> event list \<Rightarrow> exn option \<times> event list" where
  "print_vms [] tr = (None, tr)"
| "print_vms (vm # rest) tr =
     (case py_getitem vm ''name'' of
        Inl e \<Rightarrow> (Some e, tr)
      | Inr name \<Rightarrow>
     let tr1 = tr @ [Print [Text ''Name: '', interp name]] in
     (case py_getitem vm ''status'' of
        Inl e \<Rightarrow> (Some e, tr1)
      | Inr status \<Rightarrow>
     let tr2 = tr1 @ [Print [Text ''  Status: '', interp status]] in
     (case item2 vm ''cpu'' ''count'' of
        Inl e \<Rightarrow> (Some e, tr2)
      | Inr cpu_count \<Rightarrow>
     let tr3 = tr2 @ [Print [Text ''  CPU: '', interp cpu_count, Text '' cores'']] in
     (case item2 vm ''memory'' ''size_bytes'' of
        Inl e \<Rightarrow> (Some e, tr3)
      | Inr mem \<Rightarrow>
     (case in_gib 1 mem of
        Inl e \<Rightarrow> (Some e, tr3)
      | Inr mem_gb \<Rightarrow>
     let tr4 = tr3 @ [Print [Text ''  Memory: '', mem_gb, Text '' GB'']] in
     (case py_getitem vm ''created_at'' of
        Inl e \<Rightarrow> (Some e, tr4)
      | Inr created \<Rightarrow>
          print_vms rest
            (tr4 @ [Print [Text ''  Created: '', interp created],
                    Print [Text (replicate 80 CHR ''-'')]])))))))"

definition finish :: "exn option \<times> event list \<Rightarrow> status \<times> event list" where
  "finish r = (case r of (None, tr) \<Rightarrow> (Exit 0, tr) | (Some e, tr) \<Rightarrow> (Uncaught e, tr))"

definition main :: "env \<Rightarrow> files \<Rightarrow> args \<Rightarrow> status \<times> event list" where
  "main world fs a =
     (let c = LibGoClient (api_url a) (token a) in
      case check_health world c [] of
        (False, tr) \<Rightarrow>
          (Exit 1,
           tr @ [Print [Text
             ''Error: API is not responding. Please check if LibGo server is running.'']])
      | (True, tr) \<Rightarrow>
          (case command a of
             Create name template description start \<Rightarrow>
               (case create_windows_vm world c (JStr name) (JStr template)
                       (opt_str description) tr of
                  (Inl e, tr1) \<Rightarrow> (Uncaught e, tr1)
                | (Inr success, tr1) \<Rightarrow>
                    if success \<and> start
                    then (case start_vm world c name
                                 (tr1 @ [Print [Text ''\<newline>Starting VM: '', Text name]]) of
                            ((True, result), tr2) \<Rightarrow>
                              (Exit 0,
                               tr2 @ [Print [Text (check_mark @ '' VM started successfully!'')]])
                          | ((False, result), tr2) \<Rightarrow>
                              (Exit 0,
                               tr2 @ [Print [Text (ballot_x @ '' Failed to start VM: ''),
                                             interp result]]))
                    else (Exit 0, tr1))
           | Create_multiple config_file \<Rightarrow>
               (case (if truthy (opt_str config_file) then config_file else None) of
                  Some path \<Rightarrow>
                    (case fs path of
                       Unreadable \<Rightarrow> (Uncaught OSError, tr)
                     | Not_json \<Rightarrow> (Uncaught ValueError, tr)
                     | Loaded configs \<Rightarrow>
                         (case py_iter configs of
                            Inl e \<Rightarrow> (Uncaught e, tr)
                          | Inr cs \<Rightarrow> finish (create_from_configs world c cs tr)))
                | None \<Rightarrow> finish (create_from_tuples world c default_vms tr))
           | List_vms \<Rightarrow>
               (case list_vms world c tr of
                  ((True, vms), tr1) \<Rightarrow>
                    if truthy vms
                    then (case py_len vms of
                            Inl e \<Rightarrow> (Uncaught e, tr1)
                          | Inr n \<Rightarrow>
                        (case py_iter vms of
                            Inl e \<Rightarrow> (Uncaught e, tr1)
                          | Inr xs \<Rightarrow>
                              finish (print_vms xs
                                (tr1 @ [Print [Text ''\<newline>Found '', Str_of (JInt (int n)),
                                               Text '' VMs:''],
                                        Print [Text (replicate 80 CHR ''-'')]]))))
                    else (Exit 0, tr1 @ [Print [Text ''No VMs found.'']])
                | ((False, vms), tr1) \<Rightarrow>
                    (Exit 0, tr1 @ [Print [Text ''Failed to list VMs'']]))
           | Delete name \<Rightarrow>
               (case delete_vm world c name (tr @ [Print [Text ''Deleting VM: '', Text name]]) of
                  ((True, result), tr1) \<Rightarrow>
                    (Exit 0, tr1 @ [Print [Text (check_mark @ '' VM deleted successfully!'')]])
                | ((False, result), tr1) \<Rightarrow>
                    (Exit 0,
                     tr1 @ [Print [Text (ballot_x @ '' Failed to delete VM: ''),
                                   interp result]]))
           | Start name \<Rightarrow>
               (case start_vm world c name (tr @ [Print [Text ''Starting VM: '', Text name]]) of
                  ((True, result), tr1) \<Rightarrow>
                    (Exit 0, tr1 @ [Print [Text (check_mark @ '' VM started successfully!'')]])
                | ((False, result), tr1) \<Rightarrow>
                    (Exit 0,
                     tr1 @ [Print [Text (ballot_x @ '' Failed to start VM: ''),
                                   interp result]]))
           | Snapshot vm_name snapshot_name description include_memory \<Rightarrow>
               (case create_snapshot world c vm_name snapshot_name
                       (if truthy (opt_str description) then opt_str description
                        else JStr (''Snapshot of '' @ vm_name))
                       include_memory
                       (tr @ [Print [Text ''Creating snapshot for VM: '', Text vm_name]]) of
                  ((True, result), tr1) \<Rightarrow>
                    (case py_get result ''snapshot'' (JObj []) of
                       Inl e \<Rightarrow> (Uncaught e, tr1)
                     | Inr snapshot \<Rightarrow>
                    let tr2 = tr1 @ [Print [Text (check_mark @ '' Snapshot created successfully!'')]]
                    in
                    (case py_get snapshot ''name'' JNull of
                       Inl e \<Rightarrow> (Uncaught e, tr2)
                     | Inr sname \<Rightarrow>
                    let tr3 = tr2 @ [Print [Text ''  Name: '', interp sname]] in
                    (case py_get snapshot ''created_at'' JNull of
                       Inl e \<Rightarrow> (Uncaught e, tr3)
                     | Inr created \<Rightarrow>
                         (Exit 0, tr3 @ [Print [Text ''  Created: '', interp created]]))))
                | ((False, result), tr1) \<Rightarrow>
                    (Exit 0,
                     tr1 @ [Print [Text (ballot_x @ '' Failed to create snapshot: ''),
                                   interp result]]))
           | No_command \<Rightarrow> (Exit 0, tr @ [Print_help])))"

section \<open>Observations on a run\<close>

text \<open>The request of the health check.\<close>

definition health_request :: "client \<Rightarrow> request" where
  "health_request c =
     session_request c GET (replace ''/api/v1'' [] (base_url c) @ ''/health'') None"

definition snapshot_request :: "client \<Rightarrow> string \<Rightarrow> string \<Rightarrow> string \<Rightarrow> bool \<Rightarrow> request" where
  "snapshot_request c vm_name snapshot_name description include_memory =
     session_request c POST (base_url c @ ''/vms/'' @ vm_name @ ''/snapshots'')
       (Some (JObj [(''name'', JStr snapshot_name), (''description'', JStr description),
                    (''include_memory'', JBool include_memory)]))"

text \<open>The request of \<^verbatim>\<open>create_vm\<close>.\<close>

definition create_request :: "client \<Rightarrow> json \<Rightarrow> request" where
  "create_request c vm_config = session_request c POST (base_url c @ ''/vms'') (Some vm_config)"

text \<open>The part of \<^verbatim>\<open>create_windows_vm\<close> that follows the call of \<^verbatim>\<open>create_vm\<close>.\<close>

definition after_create :: "(bool \<times> json) \<times> event list \<Rightarrow> (exn + bool) \<times> event list" where
  "after_create r =
     (case r of
        ((True, result), tr5) \<Rightarrow>
          (case py_get result ''vm'' (JObj []) of
             Inl e \<Rightarrow> (Inl e, tr5)
           | Inr vm \<Rightarrow>
          let tr6 = tr5 @ [Print [Text (check_mark @ '' VM created successfully!'')]] in
          (case py_get vm ''uuid'' JNull of
             Inl e \<Rightarrow> (Inl e, tr6)
           | Inr uuid \<Rightarrow>
          let tr7 = tr6 @ [Print [Text ''  UUID: '', interp uuid]] in
          (case py_get vm ''status'' JNull of
             Inl e \<Rightarrow> (Inl e, tr7)
           | Inr status \<Rightarrow>
               (Inr True, tr7 @ [Print [Text ''  Status: '', interp status]]))))
      | ((False, result), tr5) \<Rightarrow>
          (Inr False,
           tr5 @ [Print [Text (ballot_x @ '' Failed to create VM: ''), interp result]]))"

text \<open>The five lines printed before the request is sent.\<close>

definition summary_lines :: "json \<Rightarrow> string \<Rightarrow> int \<Rightarrow> int \<Rightarrow> int \<Rightarrow> event list" where
  "summary_lines name t n m k =
     [Print [Text ''\<newline>Creating VM: '', interp name],
      Print [Text ''Template: '', Text t],
      Print [Text ''CPU: '', Str_of (JInt n), Text '' cores''],
      Print [Text ''Memory: '', In_GiB 0 (JInt m), Text '' GB''],
      Print [Text ''Disk: '', In_GiB 0 (JInt k), Text '' GB'']]"

text \<open>The request of \<^verbatim>\<open>list_vms\<close>.\<close>

definition list_request :: "client \<Rightarrow> request" where
  "list_request c = session_request c GET (base_url c @ ''/vms'') None"

text \<open>A control plane that gives the same answer to every request.\<close>

definition always :: "reply \<Rightarrow> env" where
  "always r hist = r"

text \<open>The five operations of the client that return a dictionary.\<close>

datatype client_op =
    Create_vm json
  | Start_vm string
  | Get_vm string
  | Create_snapshot string string json bool
  | Delete_vm string

fun perform :: "env \<Rightarrow> client \<Rightarrow> client_op \<Rightarrow> event list \<Rightarrow> (bool \<times> json) \<times> event list" where
  "perform world c (Create_vm vm_config) tr = create_vm world c vm_config tr"
| "perform world c (Start_vm vm_name) tr = start_vm world c vm_name tr"
| "perform world c (Get_vm vm_name) tr = get_vm world c vm_name tr"
| "perform world c (Create_snapshot vm_name snapshot_name description include_memory) tr =
     create_snapshot world c vm_name snapshot_name description include_memory tr"
| "perform world c (Delete_vm vm_name) tr = delete_vm world c vm_name tr"

fun op_request :: "client \<Rightarrow> client_op \<Rightarrow> request" where
  "op_request c (Create_vm vm_config) =
     session_request c POST (base_url c @ ''/vms'') (Some vm_config)"
| "op_request c (Start_vm vm_name) =
     session_request c PUT (base_url c @ ''/vms/'' @ vm_name @ ''/start'') None"
| "op_request c (Get_vm vm_name) =
     session_request c GET (base_url c @ ''/vms/'' @ vm_name) None"
| "op_request c (Create_snapshot vm_name snapshot_name description include_memory) =
     session_request c POST (base_url c @ ''/vms/'' @ vm_name @ ''/snapshots'')
       (Some (JObj [(''name'', JStr snapshot_name), (''description'', description),
                    (''include_memory'', JBool include_memory)]))"
| "op_request c (Delete_vm vm_name) =
     session_request c DELETE (base_url c @ ''/vms/'' @ vm_name) None"

fun success_codes :: "client_op \<Rightarrow> int list" where
  "success_codes (Create_vm vm_config) = [201]"
| "success_codes (Start_vm vm_name) = [200]"
| "success_codes (Get_vm vm_name) = [200]"
| "success_codes (Create_snapshot vm_name snapshot_name description include_memory) = [201]"
| "success_codes (Delete_vm vm_name) = [200, 204]"

text \<open>
  What a success answer makes of its body: \<^verbatim>\<open>delete_vm\<close> does not read it, the other
  operations call \<^verbatim>\<open>response.json()\<close>.
\<close>

fun success_body :: "client_op \<Rightarrow> response \<Rightarrow> string + json" where
  "success_body (Delete_vm vm_name) r = Inr (JObj [(''message'', JStr ''VM deleted successfully'')])"
| "success_body _ r = resp_json r"

text \<open>The failure message and the HTTP status of a structured error.\<close>

definition error_message :: "json \<Rightarrow> string option" where
  "error_message res =
     (case res of
        JObj kvs \<Rightarrow> (case map_of kvs ''error'' of Some (JStr m) \<Rightarrow> Some m | _ \<Rightarrow> None)
      | _ \<Rightarrow> None)"

definition http_status :: "json \<Rightarrow> int option" where
  "http_status res =
     (case res of
        JObj kvs \<Rightarrow> (case map_of kvs ''status_code'' of Some (JInt n) \<Rightarrow> Some n | _ \<Rightarrow> None)
      | _ \<Rightarrow> None)"

text \<open>A file system in which every path gives the same result.\<close>

definition every_file :: "file_result \<Rightarrow> files" where
  "every_file r path = r"

text \<open>
  What a run reports about the items of a batch. Each item prints one of two opening
  lines, the name of the VM it creates or the template it does not know, and an item
  that reaches the control plane prints one verdict line after the answer.
\<close>

datatype report = Started frag | Rejected frag | Created | Failed












section \<open>Lemmas on traces and on single steps\<close>

lemma calls_append: "calls (tr @ tr') = calls tr @ calls tr'"
  by (induction tr rule: calls.induct) simp_all

lemma check_health_calls:
  "calls (snd (check_health world c tr)) = calls tr @ [health_request c]"
  by (simp add: check_health_def send_def health_request_def calls_append
      split: reply.splits)

lemma create_snapshot_calls:
  "calls (snd (create_snapshot world c vm sn (JStr d) im tr)) =
     calls tr @ [snapshot_request c vm sn d im]"
  by (simp add: create_snapshot_def send_def snapshot_request_def calls_append Let_def
      split: reply.splits sum.splits)

lemma check_health_true:
  assumes "fst (check_health world c [])"
  shows "check_health world c [] = (True, [Call (health_request c)])"
  using assms
  by (auto simp add: check_health_def send_def health_request_def split: reply.splits)

lemma create_windows_vm_known:
  assumes "map_of VM_TEMPLATES t = Some template"
  shows "\<exists>n m k. create_windows_vm world c name (JStr t) d tr =
           after_create (create_vm world c (vm_config_of name t d template)
                           (tr @ summary_lines name t n m k))"
proof -
  from assms have "(t, template) \<in> set VM_TEMPLATES"
    by (rule map_of_SomeD)
  then consider
      (a) "t = ''windows-11-basic''" | (b) "t = ''windows-11-developer''"
    | (c) "t = ''windows-server-web''" | (d) "t = ''windows-server-database''"
    by (auto simp add: VM_TEMPLATES_def)
  then show ?thesis
  proof cases
    case a
    with assms have t: "template = the (map_of VM_TEMPLATES ''windows-11-basic'')" by simp
    have "create_windows_vm world c name (JStr ''windows-11-basic'') d
            tr =
          after_create (create_vm world c
            (vm_config_of name ''windows-11-basic'' d (the (map_of VM_TEMPLATES ''windows-11-basic'')))
            (tr @ summary_lines name ''windows-11-basic'' 4 (8 * 1024 * 1024 * 1024)
                    (100 * 1024 * 1024 * 1024)))"
      by (simp add: create_windows_vm_def after_create_def item2_def summary_lines_def
          VM_TEMPLATES_def)
    then show ?thesis
      unfolding a t by blast
  next
    case b
    with assms have t: "template = the (map_of VM_TEMPLATES ''windows-11-developer'')" by simp
    have "create_windows_vm world c name (JStr ''windows-11-developer'') d
            tr =
          after_create (create_vm world c
            (vm_config_of name ''windows-11-developer'' d (the (map_of VM_TEMPLATES ''windows-11-developer'')))
            (tr @ summary_lines name ''windows-11-developer'' 8 (16 * 1024 * 1024 * 1024)
                    (250 * 1024 * 1024 * 1024)))"
      by (simp add: create_windows_vm_def after_create_def item2_def summary_lines_def
          VM_TEMPLATES_def)
    then show ?thesis
      unfolding b t by blast
  next
    case c
    with assms have t: "template = the (map_of VM_TEMPLATES ''windows-server-web'')" by simp
    have "create_windows_vm world c name (JStr ''windows-server-web'') d
            tr =
          after_create (create_vm world c
            (vm_config_of name ''windows-server-web'' d (the (map_of VM_TEMPLATES ''windows-server-web'')))
            (tr @ summary_lines name ''windows-server-web'' 4 (8 * 1024 * 1024 * 1024)
                    (80 * 1024 * 1024 * 1024)))"
      by (simp add: create_windows_vm_def after_create_def item2_def summary_lines_def
          VM_TEMPLATES_def)
    then show ?thesis
      unfolding c t by blast
  next
    case d
    with assms have t: "template = the (map_of VM_TEMPLATES ''windows-server-database'')" by simp
    have "create_windows_vm world c name (JStr ''windows-server-database'') d
            tr =
          after_create (create_vm world c
            (vm_config_of name ''windows-server-database'' d (the (map_of VM_TEMPLATES ''windows-server-database'')))
            (tr @ summary_lines name ''windows-server-database'' 8 (32 * 1024 * 1024 * 1024)
                    (500 * 1024 * 1024 * 1024)))"
      by (simp add: create_windows_vm_def after_create_def item2_def summary_lines_def
          VM_TEMPLATES_def)
    then show ?thesis
      unfolding d t by blast
  qed
qed

lemma calls_summary_lines: "calls (summary_lines name t n m k) = []"
  by (simp add: summary_lines_def)

lemma create_vm_calls:
  "calls (snd (create_vm world c cfg tr)) = calls tr @ [create_request c cfg]"
  by (simp add: create_vm_def send_def create_request_def calls_append
      split: reply.splits sum.splits)

lemma after_create_calls: "calls (snd (after_create r)) = calls (snd r)"
  by (simp add: after_create_def calls_append Let_def split: prod.splits bool.splits sum.splits)

lemma create_windows_vm_known_calls:
  assumes "map_of VM_TEMPLATES t = Some template"
  shows "calls (snd (create_windows_vm world c name (JStr t) d tr)) =
           calls tr @ [create_request c (vm_config_of name t d template)]"
proof -
  from create_windows_vm_known [OF assms] obtain n m k where
    "create_windows_vm world c name (JStr t) d tr =
           after_create (create_vm world c (vm_config_of name t d template)
                           (tr @ summary_lines name t n m k))"
    by blast
  then show ?thesis
    by (simp add: after_create_calls create_vm_calls calls_append calls_summary_lines)
qed

lemma vm_config_blocks:
  assumes "map_of VM_TEMPLATES t = Some template"
  shows "\<exists>cpu memory disk.
           map_of template ''cpu'' = Some cpu
         \<and> map_of template ''memory'' = Some memory
         \<and> map_of template ''disk'' = Some disk
         \<and> py_getitem (vm_config_of name t d template) ''cpu'' = Inr cpu
         \<and> py_getitem (vm_config_of name t d template) ''memory'' = Inr memory
         \<and> py_getitem (vm_config_of name t d template) ''disk'' = Inr disk
         \<and> py_getitem (vm_config_of name t d template) ''name'' = Inr name
         \<and> py_getitem (vm_config_of name t d template) ''description'' =
             Inr (if truthy d then d else JStr (''Windows VM - '' @ t))
         \<and> py_getitem (vm_config_of name t d template) ''network'' =
             Inr (JObj [(''type'', JStr ''network''), (''source'', JStr ''default''),
                        (''model'', JStr ''virtio'')])
         \<and> py_getitem (vm_config_of name t d template) ''cloudInit'' =
             Inr (JObj [(''enabled'', JBool False)])"
proof -
  from assms have "(t, template) \<in> set VM_TEMPLATES"
    by (rule map_of_SomeD)
  then show ?thesis
    by (auto simp add: VM_TEMPLATES_def vm_config_of_def)
qed

lemma create_from_configs_append:
  "create_from_configs world c (pre @ post) tr =
     (case create_from_configs world c pre tr of
        (None, tr1) \<Rightarrow> create_from_configs world c post tr1
      | (Some e, tr1) \<Rightarrow> (Some e, tr1))"
  by (induction pre arbitrary: tr) (simp_all split: sum.splits prod.splits)

lemma create_from_configs_missing_key:
  assumes "map_of kvs ''name'' = None \<or> map_of kvs ''template'' = None"
  shows "create_from_configs world c (JObj kvs # post) tr =
           (Some (KeyError (if map_of kvs ''name'' = None then ''name'' else ''template'')), tr)"
  using assms by (auto split: option.splits)













lemma list_vms_result:
  "fst (list_vms world c tr) =
     (case world (calls tr @ [list_request c]) of
        Fault msg \<Rightarrow> (False, JArr [])
      | Reply r \<Rightarrow>
          if status_code r = 200
          then (case resp_json r of
                  Inl msg \<Rightarrow> (False, JArr [])
                | Inr data \<Rightarrow>
                    (case py_get data ''vms'' (JArr []) of
                       Inl e \<Rightarrow> (False, JArr [])
                     | Inr vms \<Rightarrow> (True, vms)))
          else (False, JArr []))"
  by (simp add: list_vms_def send_def list_request_def split: reply.splits sum.splits)

lemma check_health_result:
  "fst (check_health world c tr) =
     (case world (calls tr @ [health_request c]) of
        Fault msg \<Rightarrow> False
      | Reply r \<Rightarrow> status_code r = 200)"
  by (simp add: check_health_def send_def health_request_def split: reply.splits)

section \<open>The template table\<close>

text \<open>
  C9. Every entry of the template table has a \<^verbatim>\<open>cpu\<close> block whose count, cores, threads
  and sockets (the key is spelled \<^verbatim>\<open>socket\<close> in the table) are positive integers with
  count = cores * threads * sockets. The table is a constant of the program: no operation
  of the script takes it as state or returns a changed copy, so the property holds at
  every point of every run.
\<close>

theorem catalog_cpu_invariant:
  "\<forall>entry \<in> set VM_TEMPLATES. cpu_consistent (snd entry)"
  by (simp add: VM_TEMPLATES_def cpu_consistent_def cpu_field_def)

theorem catalog_cpu_invariant_witness:
  "(''windows-server-database'',
       [(''template'', JStr ''windows-server-2022''),
        (''cpu'', JObj [(''count'', JInt 8), (''cores'', JInt 4), (''threads'', JInt 1),
                        (''socket'', JInt 2)]),
        (''memory'', JObj [(''sizeBytes'', JInt (32 * 1024 * 1024 * 1024))]),
        (''disk'', JObj [(''sizeBytes'', JInt (500 * 1024 * 1024 * 1024)),
                         (''format'', JStr ''qcow2''), (''bus'', JStr ''virtio'')])])
     \<in> set VM_TEMPLATES
   \<and> cpu_field (the (map_of VM_TEMPLATES ''windows-server-database'')) ''count'' = Some 8
   \<and> cpu_consistent (the (map_of VM_TEMPLATES ''windows-server-database''))"
proof -
  let ?e = "(''windows-server-database'',
       [(''template'', JStr ''windows-server-2022''),
        (''cpu'', JObj [(''count'', JInt 8), (''cores'', JInt 4), (''threads'', JInt 1),
                        (''socket'', JInt 2)]),
        (''memory'', JObj [(''sizeBytes'', JInt (32 * 1024 * 1024 * 1024))]),
        (''disk'', JObj [(''sizeBytes'', JInt (500 * 1024 * 1024 * 1024)),
                         (''format'', JStr ''qcow2''), (''bus'', JStr ''virtio'')])])"
  have mem: "?e \<in> set VM_TEMPLATES"
    by (simp add: VM_TEMPLATES_def)
  have look: "map_of VM_TEMPLATES ''windows-server-database'' = Some (snd ?e)"
    by (simp add: VM_TEMPLATES_def)
  from catalog_cpu_invariant mem have "cpu_consistent (snd ?e)"
    by blast
  with mem look show ?thesis
    by (simp add: cpu_field_def)
qed

section \<open>The health gate\<close>

text \<open>
  C1. When \<^verbatim>\<open>check_health\<close> returns false, the run ends with exit status 1: the health
  request is the only request the whole run sends (no createVm, startVm, getVm, listVms,
  createSnapshot or deleteVm follows it), and the last thing printed is the fatal error.
\<close>

theorem health_gate:
  assumes "\<not> fst (check_health world (LibGoClient (api_url a) (token a)) [])"
  shows "fst (main world fs a) = Exit 1
       \<and> calls (snd (main world fs a)) = [health_request (LibGoClient (api_url a) (token a))]
       \<and> last (snd (main world fs a)) =
           Print [Text ''Error: API is not responding. Please check if LibGo server is running.'']"
proof -
  let ?c = "LibGoClient (api_url a) (token a)"
  obtain tr where h: "check_health world ?c [] = (False, tr)"
    using assms by (cases "check_health world ?c []") auto
  have m: "main world fs a =
      (Exit 1, tr @ [Print [Text
         ''Error: API is not responding. Please check if LibGo server is running.'']])"
    by (simp add: main_def h)
  have "calls tr = [health_request ?c]"
    using check_health_calls [of world ?c "[]"] by (simp add: h)
  with m show ?thesis
    by (simp add: calls_append)
qed

theorem health_gate_witness:
  "fst (main (\<lambda>hist. Fault ''connection refused'') (\<lambda>path. Unreadable)
         \<lparr>api_url = ''http://localhost:8080/api/v1'', token = None,
          command = Create_multiple None\<rparr>) = Exit 1
   \<and> calls (snd (main (\<lambda>hist. Fault ''connection refused'') (\<lambda>path. Unreadable)
         \<lparr>api_url = ''http://localhost:8080/api/v1'', token = None,
          command = Create_multiple None\<rparr>))
      = [\<lparr>http_method = GET, url = ''http://localhost:8080/health'', headers = [],
          body = None, timeout = 30\<rparr>]"
proof -
  let ?w = "\<lambda>hist :: request list. Fault ''connection refused''"
  let ?a = "\<lparr>api_url = ''http://localhost:8080/api/v1'', token = None,
          command = Create_multiple None\<rparr>"
  have h: "\<not> fst (check_health ?w (LibGoClient (api_url ?a) (token ?a)) [])"
    by (simp add: check_health_def send_def)
  have "health_request (LibGoClient (api_url ?a) (token ?a)) =
     \<lparr>http_method = GET, url = ''http://localhost:8080/health'', headers = [],
          body = None, timeout = 30\<rparr>"
    by (simp add: health_request_def LibGoClient_def session_request_def rstrip_def
        DEFAULT_TIMEOUT_def)
  with health_gate [OF h, of "\<lambda>path. Unreadable"] show ?thesis
    by simp
qed

section \<open>Unknown templates\<close>



section \<open>Listing VMs\<close>

text \<open>
  C7 as stated covers every 200 answer whose body lacks the \<^verbatim>\<open>vms\<close> field. A body that
  is a JSON array lacks it, and so does a body that is not JSON at all: for both
  \<^verbatim>\<open>list_vms\<close> returns ok = False, not ok = True.
\<close>

theorem list_extraction_counterexample:
  "fst (list_vms
         (always (Reply \<lparr>status_code = 200, resp_text = ''[]'', resp_json = Inr (JArr [])\<rparr>))
         \<lparr>base_url = ''http://localhost:8080/api/v1'', session_headers = []\<rparr> [])
     = (False, JArr [])
   \<and> fst (list_vms
         (always (Reply \<lparr>status_code = 200, resp_text = ''OK'',
                         resp_json = Inl ''Expecting value''\<rparr>))
         \<lparr>base_url = ''http://localhost:8080/api/v1'', session_headers = []\<rparr> [])
     = (False, JArr [])"
  by (simp add: list_vms_def send_def always_def)

text \<open>
  C7, amended. When the answer to the request of \<^verbatim>\<open>list_vms\<close> has status 200: if the body
  is a JSON object with a \<^verbatim>\<open>vms\<close> field, the operation returns ok = True with the value of
  that field; if the body is a JSON object without the field, it returns ok = True with
  the empty list; if the body is not a JSON object (another JSON value, or text that
  cannot be decoded), it returns ok = False with the empty list.
\<close>

theorem list_extraction:
  assumes "world (calls tr @ [list_request c]) = Reply r"
    and "status_code r = 200"
  shows "(\<forall>kvs vms. resp_json r = Inr (JObj kvs) \<and> map_of kvs ''vms'' = Some vms
            \<longrightarrow> fst (list_vms world c tr) = (True, vms))
       \<and> (\<forall>kvs. resp_json r = Inr (JObj kvs) \<and> map_of kvs ''vms'' = None
            \<longrightarrow> fst (list_vms world c tr) = (True, JArr []))
       \<and> ((\<forall>kvs. resp_json r \<noteq> Inr (JObj kvs))
            \<longrightarrow> fst (list_vms world c tr) = (False, JArr []))"
proof -
  have a: "fst (list_vms world c tr) = (True, vms)"
    if "resp_json r = Inr (JObj kvs)" "map_of kvs ''vms'' = Some vms" for kvs vms
    using assms that by (simp add: list_vms_result)
  have b: "fst (list_vms world c tr) = (True, JArr [])"
    if "resp_json r = Inr (JObj kvs)" "map_of kvs ''vms'' = None" for kvs
    using assms that by (simp add: list_vms_result)
  have c: "fst (list_vms world c tr) = (False, JArr [])"
    if n: "\<forall>kvs. resp_json r \<noteq> Inr (JObj kvs)"
  proof (cases "resp_json r")
    case (Inl msg)
    with assms show ?thesis
      by (simp add: list_vms_result)
  next
    case (Inr data)
    with n have "\<forall>kvs. data \<noteq> JObj kvs"
      by simp
    then have "py_get data ''vms'' (JArr []) = Inl AttributeError"
      by (cases data) simp_all
    with assms Inr show ?thesis
      by (simp add: list_vms_result)
  qed
  from a b c show ?thesis
    by blast
qed

theorem list_extraction_witness:
  "fst (list_vms
         (\<lambda>hist. Reply \<lparr>status_code = 200, resp_text = ''{..}'',
            resp_json = Inr (JObj [(''vms'', JArr [JObj [(''name'', JStr ''win1'')]])])\<rparr>)
         \<lparr>base_url = ''http://localhost:8080/api/v1'', session_headers = []\<rparr> [])
     = (True, JArr [JObj [(''name'', JStr ''win1'')]])
   \<and> fst (list_vms
         (\<lambda>hist. Reply \<lparr>status_code = 200, resp_text = ''{}'', resp_json = Inr (JObj [])\<rparr>)
         \<lparr>base_url = ''http://localhost:8080/api/v1'', session_headers = []\<rparr> [])
     = (True, JArr [])
   \<and> fst (list_vms
         (\<lambda>hist. Reply \<lparr>status_code = 200, resp_text = ''null'', resp_json = Inr JNull\<rparr>)
         \<lparr>base_url = ''http://localhost:8080/api/v1'', session_headers = []\<rparr> [])
     = (False, JArr [])"
proof -
  let ?c = "\<lparr>base_url = ''http://localhost:8080/api/v1'', session_headers = []\<rparr>"
  let ?r1 = "\<lparr>status_code = 200, resp_text = ''{..}'',
            resp_json = Inr (JObj [(''vms'', JArr [JObj [(''name'', JStr ''win1'')]])])\<rparr>"
  let ?r2 = "\<lparr>status_code = 200, resp_text = ''{}'', resp_json = Inr (JObj [])\<rparr>"
  let ?r3 = "\<lparr>status_code = 200, resp_text = ''null'', resp_json = Inr JNull\<rparr>"
  have a: "fst (list_vms (\<lambda>hist. Reply ?r1) ?c []) = (True, JArr [JObj [(''name'', JStr ''win1'')]])"
    using list_extraction [where world = "\<lambda>hist. Reply ?r1" and tr = "[]" and c = ?c
        and r = ?r1]
    by simp
  have b: "fst (list_vms (\<lambda>hist. Reply ?r2) ?c []) = (True, JArr [])"
    using list_extraction [where world = "\<lambda>hist. Reply ?r2" and tr = "[]" and c = ?c
        and r = ?r2]
    by simp
  have c: "fst (list_vms (\<lambda>hist. Reply ?r3) ?c []) = (False, JArr [])"
    using list_extraction [where world = "\<lambda>hist. Reply ?r3" and tr = "[]" and c = ?c
        and r = ?r3]
    by simp
  from a b c show ?thesis by simp
qed

section \<open>The snapshot command\<close>

text \<open>
  C10. After a successful health check the snapshot command sends exactly one further
  request, the POST to the snapshots of the VM, and the description in its body is
  \<^verbatim>\<open>Snapshot of <vm_name>\<close> when no description was given on the command line (or an
  empty one), and the given description itself when it is not empty.
\<close>

theorem snapshot_description:
  assumes "fst (check_health world (LibGoClient (api_url a) (token a)) [])"
    and "command a = Snapshot vm_name snapshot_name description include_memory"
  shows "calls (snd (main world fs a)) =
          [health_request (LibGoClient (api_url a) (token a)),
           snapshot_request (LibGoClient (api_url a) (token a)) vm_name snapshot_name
             (case description of
                None \<Rightarrow> ''Snapshot of '' @ vm_name
              | Some d \<Rightarrow> if d = [] then ''Snapshot of '' @ vm_name else d)
             include_memory]"
proof -
  let ?c = "LibGoClient (api_url a) (token a)"
  let ?d = "case description of
                None \<Rightarrow> ''Snapshot of '' @ vm_name
              | Some d \<Rightarrow> if d = [] then ''Snapshot of '' @ vm_name else d"
  let ?tr = "[Call (health_request ?c), Print [Text ''Creating snapshot for VM: '', Text vm_name]]"
  have d: "(if truthy (opt_str description) then opt_str description
            else JStr (''Snapshot of '' @ vm_name)) = JStr ?d"
    by (cases description) simp_all
  obtain ok result tr1 where
    s: "create_snapshot world ?c vm_name snapshot_name (JStr ?d) include_memory ?tr
          = ((ok, result), tr1)"
    by (cases "create_snapshot world ?c vm_name snapshot_name (JStr ?d) include_memory ?tr") auto
  have c1: "calls tr1 = [health_request ?c, snapshot_request ?c vm_name snapshot_name ?d include_memory]"
    using create_snapshot_calls [of world ?c vm_name snapshot_name ?d include_memory ?tr]
    by (simp add: s)
  have m: "main world fs a =
      (case create_snapshot world ?c vm_name snapshot_name (JStr ?d) include_memory ?tr of
                  ((True, result), tr1) \<Rightarrow>
                    (case py_get result ''snapshot'' (JObj []) of
                       Inl e \<Rightarrow> (Uncaught e, tr1)
                     | Inr snapshot \<Rightarrow>
                    let tr2 = tr1 @ [Print [Text (check_mark @ '' Snapshot created successfully!'')]]
                    in
                    (case py_get snapshot ''name'' JNull of
                       Inl e \<Rightarrow> (Uncaught e, tr2)
                     | Inr sname \<Rightarrow>
                    let tr3 = tr2 @ [Print [Text ''  Name: '', interp sname]] in
                    (case py_get snapshot ''created_at'' JNull of
                       Inl e \<Rightarrow> (Uncaught e, tr3)
                     | Inr created \<Rightarrow>
                         (Exit 0, tr3 @ [Print [Text ''  Created: '', interp created]]))))
                | ((False, result), tr1) \<Rightarrow>
                    (Exit 0,
                     tr1 @ [Print [Text (ballot_x @ '' Failed to create snapshot: ''),
                                   interp result]]))"
    using assms(2)
    by (simp add: main_def Let_def check_health_true [OF assms(1)] d split del: if_split)
  have "calls (snd (main world fs a)) = calls tr1"
    unfolding m s
    by (cases ok) (simp_all add: calls_append Let_def split: sum.splits)
  with c1 show ?thesis by simp
qed

theorem snapshot_description_witness:
  "calls (snd (main
      (\<lambda>hist. Reply \<lparr>status_code = 200, resp_text = ''ok'', resp_json = Inr (JObj [])\<rparr>)
      (\<lambda>path. Unreadable)
      \<lparr>api_url = ''http://localhost:8080/api/v1'', token = None,
       command = Snapshot ''win1'' ''before-update'' None False\<rparr>))
   = [\<lparr>http_method = GET, url = ''http://localhost:8080/health'', headers = [],
       body = None, timeout = 30\<rparr>,
      \<lparr>http_method = POST, url = ''http://localhost:8080/api/v1/vms/win1/snapshots'',
       headers = [],
       body = Some (JObj [(''name'', JStr ''before-update''),
                          (''description'', JStr ''Snapshot of win1''),
                          (''include_memory'', JBool False)]),
       timeout = 30\<rparr>]"
proof -
  let ?w = "\<lambda>hist :: request list.
      Reply \<lparr>status_code = 200, resp_text = ''ok'', resp_json = Inr (JObj [])\<rparr>"
  let ?a = "\<lparr>api_url = ''http://localhost:8080/api/v1'', token = None,
       command = Snapshot ''win1'' ''before-update'' None False\<rparr>"
  have h: "fst (check_health ?w (LibGoClient (api_url ?a) (token ?a)) [])"
    by (simp add: check_health_def send_def)
  have c: "command ?a = Snapshot ''win1'' ''before-update'' None False"
    by simp
  show ?thesis
    using snapshot_description [OF h c, of "\<lambda>path. Unreadable"]
    by (simp add: LibGoClient_def rstrip_def health_request_def snapshot_request_def session_request_def
        DEFAULT_TIMEOUT_def)
qed

section \<open>Building the request\<close>

text \<open>
  C4. For every template name of the table and every VM name, \<^verbatim>\<open>create_windows_vm\<close> with
  an empty description builds a configuration and sends it (exactly one request, the POST
  of \<^verbatim>\<open>create_vm\<close>, whatever the control plane answers). The \<^verbatim>\<open>cpu\<close>, \<^verbatim>\<open>memory\<close> and
  \<^verbatim>\<open>disk\<close> blocks of that configuration are those of the table entry, and it carries the
  fixed blocks network = {type: network, source: default, model: virtio} and
  cloudInit = {enabled: false}.
\<close>

theorem template_completeness:
  assumes "map_of VM_TEMPLATES t = Some template"
  shows "\<exists>cfg cpu memory disk.
           calls (snd (create_windows_vm world c name (JStr t) (JStr []) tr)) =
             calls tr @ [create_request c cfg]
         \<and> map_of template ''cpu'' = Some cpu
         \<and> map_of template ''memory'' = Some memory
         \<and> map_of template ''disk'' = Some disk
         \<and> py_getitem cfg ''cpu'' = Inr cpu
         \<and> py_getitem cfg ''memory'' = Inr memory
         \<and> py_getitem cfg ''disk'' = Inr disk
         \<and> py_getitem cfg ''network'' =
             Inr (JObj [(''type'', JStr ''network''), (''source'', JStr ''default''),
                        (''model'', JStr ''virtio'')])
         \<and> py_getitem cfg ''cloudInit'' = Inr (JObj [(''enabled'', JBool False)])"
proof -
  let ?cfg = "vm_config_of name t (JStr []) template"
  have sent: "calls (snd (create_windows_vm world c name (JStr t) (JStr []) tr)) =
             calls tr @ [create_request c ?cfg]"
    using assms by (rule create_windows_vm_known_calls)
  from vm_config_blocks [OF assms, of name "JStr []"] obtain cpu memory disk where
    "map_of template ''cpu'' = Some cpu" "map_of template ''memory'' = Some memory"
    "map_of template ''disk'' = Some disk"
    "py_getitem ?cfg ''cpu'' = Inr cpu" "py_getitem ?cfg ''memory'' = Inr memory"
    "py_getitem ?cfg ''disk'' = Inr disk"
    "py_getitem ?cfg ''network'' =
             Inr (JObj [(''type'', JStr ''network''), (''source'', JStr ''default''),
                        (''model'', JStr ''virtio'')])"
    "py_getitem ?cfg ''cloudInit'' = Inr (JObj [(''enabled'', JBool False)])"
    by blast
  with sent show ?thesis
    by blast
qed

theorem template_completeness_witness:
  "map_of VM_TEMPLATES ''windows-11-developer'' =
     Some [(''template'', JStr ''windows-11''),
           (''cpu'', JObj [(''count'', JInt 8), (''cores'', JInt 4), (''threads'', JInt 1),
                           (''socket'', JInt 2)]),
           (''memory'', JObj [(''sizeBytes'', JInt (16 * 1024 * 1024 * 1024))]),
           (''disk'', JObj [(''sizeBytes'', JInt (250 * 1024 * 1024 * 1024)),
                            (''format'', JStr ''qcow2''), (''bus'', JStr ''virtio'')])]
   \<and> (\<exists>cfg.
         calls (snd (create_windows_vm (\<lambda>hist. Fault ''timed out'')
                  \<lparr>base_url = ''http://localhost:8080/api/v1'', session_headers = []\<rparr>
                  (JStr ''dev1'') (JStr ''windows-11-developer'') (JStr []) [])) =
           [create_request
              \<lparr>base_url = ''http://localhost:8080/api/v1'', session_headers = []\<rparr> cfg]
       \<and> py_getitem cfg ''cpu'' =
           Inr (JObj [(''count'', JInt 8), (''cores'', JInt 4), (''threads'', JInt 1),
                      (''socket'', JInt 2)])
       \<and> py_getitem cfg ''memory'' = Inr (JObj [(''sizeBytes'', JInt (16 * 1024 * 1024 * 1024))])
       \<and> py_getitem cfg ''disk'' =
           Inr (JObj [(''sizeBytes'', JInt (250 * 1024 * 1024 * 1024)),
                      (''format'', JStr ''qcow2''), (''bus'', JStr ''virtio'')])
       \<and> py_getitem cfg ''network'' =
           Inr (JObj [(''type'', JStr ''network''), (''source'', JStr ''default''),
                      (''model'', JStr ''virtio'')])
       \<and> py_getitem cfg ''cloudInit'' = Inr (JObj [(''enabled'', JBool False)]))"
proof -
  let ?p = "[(''template'', JStr ''windows-11''),
           (''cpu'', JObj [(''count'', JInt 8), (''cores'', JInt 4), (''threads'', JInt 1),
                           (''socket'', JInt 2)]),
           (''memory'', JObj [(''sizeBytes'', JInt (16 * 1024 * 1024 * 1024))]),
           (''disk'', JObj [(''sizeBytes'', JInt (250 * 1024 * 1024 * 1024)),
                            (''format'', JStr ''qcow2''), (''bus'', JStr ''virtio'')])]"
  have h: "map_of VM_TEMPLATES ''windows-11-developer'' = Some ?p"
    by (simp add: VM_TEMPLATES_def)
  from template_completeness [OF h, of "\<lambda>hist. Fault ''timed out''"
      "\<lparr>base_url = ''http://localhost:8080/api/v1'', session_headers = []\<rparr>"
      "JStr ''dev1''" "[]"]
  obtain cfg cpu memory disk where
    a: "calls (snd (create_windows_vm (\<lambda>hist. Fault ''timed out'')
                  \<lparr>base_url = ''http://localhost:8080/api/v1'', session_headers = []\<rparr>
                  (JStr ''dev1'') (JStr ''windows-11-developer'') (JStr []) [])) =
           calls [] @ [create_request
              \<lparr>base_url = ''http://localhost:8080/api/v1'', session_headers = []\<rparr> cfg]"
    and b: "map_of ?p ''cpu'' = Some cpu" "map_of ?p ''memory'' = Some memory"
      "map_of ?p ''disk'' = Some disk"
    and c: "py_getitem cfg ''cpu'' = Inr cpu" "py_getitem cfg ''memory'' = Inr memory"
      "py_getitem cfg ''disk'' = Inr disk"
      "py_getitem cfg ''network'' =
           Inr (JObj [(''type'', JStr ''network''), (''source'', JStr ''default''),
                      (''model'', JStr ''virtio'')])"
      "py_getitem cfg ''cloudInit'' = Inr (JObj [(''enabled'', JBool False)])"
    by blast
  from b have "cpu = JObj [(''count'', JInt 8), (''cores'', JInt 4), (''threads'', JInt 1),
                           (''socket'', JInt 2)]"
    "memory = JObj [(''sizeBytes'', JInt (16 * 1024 * 1024 * 1024))]"
    "disk = JObj [(''sizeBytes'', JInt (250 * 1024 * 1024 * 1024)),
                            (''format'', JStr ''qcow2''), (''bus'', JStr ''virtio'')]"
    by simp_all
  with a c h show ?thesis
    by auto
qed

text \<open>
  C5. For every VM name and every template name of the table, the configuration that is
  sent has the description \<^verbatim>\<open>Windows VM - <template name>\<close> when the description argument
  is absent or empty, and the description argument itself when it is a non-empty string.
\<close>

theorem description_synthesis:
  assumes "map_of VM_TEMPLATES t = Some template"
  shows "\<exists>cfg.
           calls (snd (create_windows_vm world c name (JStr t) (opt_str description) tr)) =
             calls tr @ [create_request c cfg]
         \<and> py_getitem cfg ''description'' =
             Inr (JStr (case description of
                          None \<Rightarrow> ''Windows VM - '' @ t
                        | Some d \<Rightarrow> if d = [] then ''Windows VM - '' @ t else d))"
proof -
  let ?cfg = "vm_config_of name t (opt_str description) template"
  have sent: "calls (snd (create_windows_vm world c name (JStr t) (opt_str description) tr)) =
             calls tr @ [create_request c ?cfg]"
    using assms by (rule create_windows_vm_known_calls)
  from vm_config_blocks [OF assms, of name "opt_str description"]
  have "py_getitem ?cfg ''description'' =
          Inr (if truthy (opt_str description) then opt_str description
               else JStr (''Windows VM - '' @ t))"
    by blast
  then have "py_getitem ?cfg ''description'' =
             Inr (JStr (case description of
                          None \<Rightarrow> ''Windows VM - '' @ t
                        | Some d \<Rightarrow> if d = [] then ''Windows VM - '' @ t else d))"
    by (cases description) simp_all
  with sent show ?thesis
    by blast
qed

theorem description_synthesis_witness:
  "map_of VM_TEMPLATES ''windows-11-basic'' \<noteq> None
   \<and> (\<exists>cfg.
         calls (snd (create_windows_vm (\<lambda>hist. Fault ''timed out'')
                  \<lparr>base_url = ''http://localhost:8080/api/v1'', session_headers = []\<rparr>
                  (JStr ''win1'') (JStr ''windows-11-basic'') (JStr []) [])) =
           [create_request
              \<lparr>base_url = ''http://localhost:8080/api/v1'', session_headers = []\<rparr> cfg]
       \<and> py_getitem cfg ''description'' = Inr (JStr ''Windows VM - windows-11-basic''))
   \<and> (\<exists>cfg.
         calls (snd (create_windows_vm (\<lambda>hist. Fault ''timed out'')
                  \<lparr>base_url = ''http://localhost:8080/api/v1'', session_headers = []\<rparr>
                  (JStr ''win1'') (JStr ''windows-11-basic'') (JStr ''Build agent'') [])) =
           [create_request
              \<lparr>base_url = ''http://localhost:8080/api/v1'', session_headers = []\<rparr> cfg]
       \<and> py_getitem cfg ''description'' = Inr (JStr ''Build agent''))"
proof -
  obtain p where h: "map_of VM_TEMPLATES ''windows-11-basic'' = Some p"
    by (simp add: VM_TEMPLATES_def)
  let ?w = "\<lambda>hist :: request list. Fault ''timed out''"
  let ?c = "\<lparr>base_url = ''http://localhost:8080/api/v1'', session_headers = []\<rparr>"
  have a: "\<exists>cfg.
         calls (snd (create_windows_vm ?w ?c (JStr ''win1'') (JStr ''windows-11-basic'')
                       (JStr []) [])) = [create_request ?c cfg]
       \<and> py_getitem cfg ''description'' = Inr (JStr ''Windows VM - windows-11-basic'')"
    using description_synthesis [OF h, of ?w ?c "JStr ''win1''" "Some []" "[]"]
    by simp
  have b: "\<exists>cfg.
         calls (snd (create_windows_vm ?w ?c (JStr ''win1'') (JStr ''windows-11-basic'')
                       (JStr ''Build agent'') [])) = [create_request ?c cfg]
       \<and> py_getitem cfg ''description'' = Inr (JStr ''Build agent'')"
    using description_synthesis [OF h, of ?w ?c "JStr ''win1''" "Some ''Build agent''" "[]"]
    by simp
  from a b h show ?thesis
    by simp
qed

section \<open>Failures of the client operations\<close>

text \<open>
  C3 as stated asks every operation to return, on failure, a structured error with the
  failure message. \<^verbatim>\<open>list_vms\<close> does not: when the control plane answers 500 it returns
  ok = False with the empty list, which has neither a message nor a status.
\<close>

theorem list_vms_error_counterexample:
  "fst (list_vms
         (always (Reply \<lparr>status_code = 500, resp_text = ''internal error'',
                         resp_json = Inl ''Expecting value''\<rparr>))
         \<lparr>base_url = ''http://localhost:8080/api/v1'', session_headers = []\<rparr> [])
     = (False, JArr [])
   \<and> error_message (JArr []) = None
   \<and> http_status (JArr []) = None"
  by (simp add: list_vms_def send_def always_def error_message_def http_status_def)

text \<open>
  C3, amended. \<^verbatim>\<open>create_vm\<close>, \<^verbatim>\<open>start_vm\<close>, \<^verbatim>\<open>get_vm\<close>, \<^verbatim>\<open>create_snapshot\<close> and
  \<^verbatim>\<open>delete_vm\<close> never raise: each sends its one request and returns a pair. When the
  session call raises, the pair is ok = False with an error dictionary that carries the
  text of the exception and no status. When an answer arrives whose status is not a
  success code of the operation, the pair is ok = False with an error dictionary that
  carries the text of the response and its status. When the status is a success code the
  pair is ok = True with the parsed body (a fixed message for \<^verbatim>\<open>delete_vm\<close>), unless the
  body cannot be decoded: then it is ok = False with the text of the decoding error and
  no status. \<^verbatim>\<open>list_vms\<close> never raises either and has no error structure: it returns
  ok = False with the empty list when the session call raises, when the status is not
  200, and when the body of a 200 answer cannot be decoded or is not a JSON object; in
  the one remaining case, a 200 answer with a JSON object, it returns ok = True.
  \<^verbatim>\<open>check_health\<close> returns a bare boolean, True exactly when an answer with status 200
  arrives.
\<close>

theorem failure_classification:
  "(case world (calls tr @ [op_request c op]) of
      Fault msg \<Rightarrow>
        (\<exists>res. perform world c op tr = ((False, res), tr @ [Call (op_request c op)])
             \<and> error_message res = Some msg \<and> http_status res = None)
    | Reply r \<Rightarrow>
        if status_code r \<in> set (success_codes op)
        then (case success_body op r of
                Inr v \<Rightarrow> perform world c op tr = ((True, v), tr @ [Call (op_request c op)])
              | Inl msg \<Rightarrow>
                  (\<exists>res. perform world c op tr = ((False, res), tr @ [Call (op_request c op)])
                       \<and> error_message res = Some msg \<and> http_status res = None))
        else (\<exists>res. perform world c op tr = ((False, res), tr @ [Call (op_request c op)])
                  \<and> error_message res = Some (resp_text r)
                  \<and> http_status res = Some (status_code r)))
   \<and> (case world (calls tr @ [list_request c]) of
        Fault msg \<Rightarrow> fst (list_vms world c tr) = (False, JArr [])
      | Reply r \<Rightarrow>
          if status_code r = 200 \<and> (\<exists>kvs. resp_json r = Inr (JObj kvs))
          then fst (fst (list_vms world c tr))
          else fst (list_vms world c tr) = (False, JArr []))
   \<and> error_message (JArr []) = None \<and> http_status (JArr []) = None
   \<and> fst (check_health world c tr) =
       (case world (calls tr @ [health_request c]) of
          Fault msg \<Rightarrow> False
        | Reply r \<Rightarrow> status_code r = 200)"
proof -
  have l: "(case world (calls tr @ [list_request c]) of
        Fault msg \<Rightarrow> fst (list_vms world c tr) = (False, JArr [])
      | Reply r \<Rightarrow>
          if status_code r = 200 \<and> (\<exists>kvs. resp_json r = Inr (JObj kvs))
          then fst (fst (list_vms world c tr))
          else fst (list_vms world c tr) = (False, JArr []))"
  proof (cases "world (calls tr @ [list_request c])")
    case (Fault msg)
    then show ?thesis
      by (simp add: list_vms_result)
  next
    case (Reply r)
    show ?thesis
    proof (cases "resp_json r")
      case (Inl msg)
      with Reply show ?thesis
        by (simp add: list_vms_result)
    next
      case (Inr data)
      with Reply show ?thesis
        by (cases data) (simp_all add: list_vms_result split: option.splits)
    qed
  qed
  have e: "error_message (JArr []) = None \<and> http_status (JArr []) = None"
    by (simp add: error_message_def http_status_def)
  have p: "(case world (calls tr @ [op_request c op]) of
      Fault msg \<Rightarrow>
        (\<exists>res. perform world c op tr = ((False, res), tr @ [Call (op_request c op)])
             \<and> error_message res = Some msg \<and> http_status res = None)
    | Reply r \<Rightarrow>
        if status_code r \<in> set (success_codes op)
        then (case success_body op r of
                Inr v \<Rightarrow> perform world c op tr = ((True, v), tr @ [Call (op_request c op)])
              | Inl msg \<Rightarrow>
                  (\<exists>res. perform world c op tr = ((False, res), tr @ [Call (op_request c op)])
                       \<and> error_message res = Some msg \<and> http_status res = None))
        else (\<exists>res. perform world c op tr = ((False, res), tr @ [Call (op_request c op)])
                  \<and> error_message res = Some (resp_text r)
                  \<and> http_status res = Some (status_code r)))"
  proof (cases op)
    case (Create_vm vm_config)
    then show ?thesis
      by (simp add: create_vm_def send_def error_message_def http_status_def raised_def
          rejected_def split: reply.splits sum.splits)
  next
    case (Start_vm vm_name)
    then show ?thesis
      by (simp add: start_vm_def send_def error_message_def http_status_def raised_def
          rejected_def split: reply.splits sum.splits)
  next
    case (Get_vm vm_name)
    then show ?thesis
      by (simp add: get_vm_def send_def error_message_def http_status_def raised_def
          rejected_def split: reply.splits sum.splits)
  next
    case (Create_snapshot vm_name snapshot_name description include_memory)
    then show ?thesis
      by (simp add: create_snapshot_def send_def error_message_def http_status_def raised_def
          rejected_def Let_def split: reply.splits sum.splits)
  next
    case (Delete_vm vm_name)
    then show ?thesis
      by (simp add: delete_vm_def send_def error_message_def http_status_def raised_def
          rejected_def split: reply.splits sum.splits)
  qed
  from p l e check_health_result [of world c tr] show ?thesis
    by blast
qed

theorem failure_classification_witness:
  "perform (always (Reply \<lparr>status_code = 409, resp_text = ''VM already exists'',
                           resp_json = Inl ''Expecting value''\<rparr>))
      \<lparr>base_url = ''http://localhost:8080/api/v1'', session_headers = []\<rparr>
      (Start_vm ''win1'') []
    = ((False, JObj [(''error'', JStr ''VM already exists''), (''status_code'', JInt 409)]),
       [Call \<lparr>http_method = PUT, url = ''http://localhost:8080/api/v1/vms/win1/start'',
              headers = [], body = None, timeout = 30\<rparr>])
   \<and> fst (list_vms (always (Reply \<lparr>status_code = 409, resp_text = ''VM already exists'',
                           resp_json = Inl ''Expecting value''\<rparr>))
      \<lparr>base_url = ''http://localhost:8080/api/v1'', session_headers = []\<rparr> [])
    = (False, JArr [])
   \<and> \<not> fst (check_health (always (Reply \<lparr>status_code = 409, resp_text = ''VM already exists'',
                           resp_json = Inl ''Expecting value''\<rparr>))
      \<lparr>base_url = ''http://localhost:8080/api/v1'', session_headers = []\<rparr> [])"
proof -
  let ?r = "\<lparr>status_code = 409, resp_text = ''VM already exists'',
                           resp_json = Inl ''Expecting value''\<rparr>"
  let ?c = "\<lparr>base_url = ''http://localhost:8080/api/v1'', session_headers = []\<rparr>"
  note t = failure_classification [where world = "always (Reply ?r)" and tr = "[]" and c = ?c
      and op = "Start_vm ''win1''"]
  from t obtain res where
    a: "perform (always (Reply ?r)) ?c (Start_vm ''win1'') [] =
          ((False, res), [Call (op_request ?c (Start_vm ''win1''))])"
    and b: "error_message res = Some ''VM already exists''" "http_status res = Some 409"
    by (auto simp add: always_def)
  from a have "res = JObj [(''error'', JStr ''VM already exists''), (''status_code'', JInt 409)]"
    by (simp add: start_vm_def send_def always_def rejected_def)
  with a have p: "perform (always (Reply ?r)) ?c (Start_vm ''win1'') [] =
      ((False, JObj [(''error'', JStr ''VM already exists''), (''status_code'', JInt 409)]),
       [Call \<lparr>http_method = PUT, url = ''http://localhost:8080/api/v1/vms/win1/start'',
              headers = [], body = None, timeout = 30\<rparr>])"
    by (simp add: session_request_def DEFAULT_TIMEOUT_def)
  from t have l: "fst (list_vms (always (Reply ?r)) ?c []) = (False, JArr [])"
    by (simp add: always_def)
  from t have h: "\<not> fst (check_health (always (Reply ?r)) ?c [])"
    by (simp add: always_def)
  from p l h show ?thesis
    by blast
qed

section \<open>Malformed batch files\<close>

text \<open>
  C8 as stated says that a malformed batch file does not crash the process. It does: with
  a healthy control plane, a file that is not JSON ends the run with an uncaught
  ValueError, a file that cannot be opened with an uncaught OSError, and a file whose
  only element has no \<^verbatim>\<open>template\<close> key with an uncaught KeyError.
\<close>

theorem malformed_batch_counterexample:
  "fst (main
         (always (Reply \<lparr>status_code = 200, resp_text = ''ok'', resp_json = Inr (JObj [])\<rparr>))
         (every_file Not_json)
         \<lparr>api_url = ''http://localhost:8080/api/v1'', token = None,
          command = Create_multiple (Some ''vms.json'')\<rparr>)
     = Uncaught ValueError
   \<and> fst (main
         (always (Reply \<lparr>status_code = 200, resp_text = ''ok'', resp_json = Inr (JObj [])\<rparr>))
         (every_file Unreadable)
         \<lparr>api_url = ''http://localhost:8080/api/v1'', token = None,
          command = Create_multiple (Some ''vms.json'')\<rparr>)
     = Uncaught OSError
   \<and> fst (main
         (always (Reply \<lparr>status_code = 200, resp_text = ''ok'', resp_json = Inr (JObj [])\<rparr>))
         (every_file (Loaded (JArr [JObj [(''name'', JStr ''win1'')]])))
         \<lparr>api_url = ''http://localhost:8080/api/v1'', token = None,
          command = Create_multiple (Some ''vms.json'')\<rparr>)
     = Uncaught (KeyError ''template'')"
  by (simp add: main_def Let_def check_health_def send_def always_def every_file_def finish_def)

text \<open>
  C8, amended. After a successful health check, \<^verbatim>\<open>create-multiple\<close> with a configuration
  file ends with an uncaught exception when the file is malformed. A file that cannot be
  opened raises OSError and a file that is not JSON raises a ValueError, in both cases
  before anything else is printed or sent. A file whose list has an element without the
  \<^verbatim>\<open>name\<close> or the \<^verbatim>\<open>template\<close> key raises the KeyError of the first missing key once the
  elements before it have been processed; the trace ends there, so no later element is
  attempted.
\<close>

theorem malformed_batch_file:
  assumes "fst (check_health world (LibGoClient (api_url a) (token a)) [])"
    and "command a = Create_multiple (Some path)"
    and "path \<noteq> []"
  shows "(fs path = Unreadable \<longrightarrow>
            main world fs a =
              (Uncaught OSError, [Call (health_request (LibGoClient (api_url a) (token a)))]))
       \<and> (fs path = Not_json \<longrightarrow>
            main world fs a =
              (Uncaught ValueError, [Call (health_request (LibGoClient (api_url a) (token a)))]))
       \<and> (\<forall>pre kvs post tr1.
            fs path = Loaded (JArr (pre @ JObj kvs # post))
            \<and> (map_of kvs ''name'' = None \<or> map_of kvs ''template'' = None)
            \<and> create_from_configs world (LibGoClient (api_url a) (token a)) pre
                  [Call (health_request (LibGoClient (api_url a) (token a)))] = (None, tr1)
            \<longrightarrow> main world fs a =
                  (Uncaught (KeyError (if map_of kvs ''name'' = None then ''name''
                                       else ''template'')), tr1))"
proof -
  let ?c = "LibGoClient (api_url a) (token a)"
  let ?tr = "[Call (health_request ?c)]"
  have m: "main world fs a =
      (case fs path of
         Unreadable \<Rightarrow> (Uncaught OSError, ?tr)
       | Not_json \<Rightarrow> (Uncaught ValueError, ?tr)
       | Loaded configs \<Rightarrow>
           (case py_iter configs of
              Inl e \<Rightarrow> (Uncaught e, ?tr)
            | Inr cs \<Rightarrow> finish (create_from_configs world ?c cs ?tr)))"
    using assms(2,3)
    by (simp add: main_def Let_def check_health_true [OF assms(1)])
  have k: "main world fs a =
             (Uncaught (KeyError (if map_of kvs ''name'' = None then ''name''
                                       else ''template'')), tr1)"
    if "fs path = Loaded (JArr (pre @ JObj kvs # post))"
      and "map_of kvs ''name'' = None \<or> map_of kvs ''template'' = None"
      and "create_from_configs world ?c pre ?tr = (None, tr1)"
    for pre kvs post tr1
  proof -
    have "create_from_configs world ?c (pre @ JObj kvs # post) ?tr =
            (Some (KeyError (if map_of kvs ''name'' = None then ''name'' else ''template'')), tr1)"
      unfolding create_from_configs_append that(3)
      using create_from_configs_missing_key [OF that(2)] by simp
    with that(1) show ?thesis
      unfolding m by (simp add: finish_def)
  qed
  show ?thesis
    using m k by simp
qed

theorem malformed_batch_file_witness:
  "main
     (\<lambda>hist. if length hist = 1
        then Reply \<lparr>status_code = 200, resp_text = ''ok'', resp_json = Inr (JObj [])\<rparr>
        else Reply \<lparr>status_code = 503, resp_text = ''busy'', resp_json = Inl ''no JSON''\<rparr>)
     (\<lambda>path. Loaded (JArr [JObj [(''name'', JStr ''a''), (''template'', JStr ''none'')],
                             JObj [(''name'', JStr ''b'')],
                             JObj [(''name'', JStr ''c''), (''template'', JStr ''none'')]]))
     \<lparr>api_url = ''http://localhost:8080/api/v1'', token = None,
      command = Create_multiple (Some ''vms.json'')\<rparr>
   = (Uncaught (KeyError ''template''),
      [Call \<lparr>http_method = GET, url = ''http://localhost:8080/health'', headers = [],
             body = None, timeout = 30\<rparr>,
       Print [Text ''Unknown template type: '', Text ''none''],
       Print [Text ''Available templates: '',
              Text ''windows-11-basic, windows-11-developer, windows-server-web, windows-server-database''],
       Sleep 2])"
proof -
  let ?w = "\<lambda>hist :: request list. if length hist = 1
        then Reply \<lparr>status_code = 200, resp_text = ''ok'', resp_json = Inr (JObj [])\<rparr>
        else Reply \<lparr>status_code = 503, resp_text = ''busy'', resp_json = Inl ''no JSON''\<rparr>"
  let ?pre = "[JObj [(''name'', JStr ''a''), (''template'', JStr ''none'')]]"
  let ?kvs = "[(''name'', JStr ''b'')]"
  let ?post = "[JObj [(''name'', JStr ''c''), (''template'', JStr ''none'')]]"
  let ?fs = "\<lambda>path :: string. Loaded (JArr (?pre @ JObj ?kvs # ?post))"
  let ?a = "\<lparr>api_url = ''http://localhost:8080/api/v1'', token = None,
      command = Create_multiple (Some ''vms.json'')\<rparr>"
  let ?c = "LibGoClient (api_url ?a) (token ?a)"
  let ?tr1 = "[Call (health_request ?c),
       Print [Text ''Unknown template type: '', Text ''none''],
       Print [Text ''Available templates: '',
              Text ''windows-11-basic, windows-11-developer, windows-server-web, windows-server-database''],
       Sleep 2]"
  have h: "fst (check_health ?w ?c [])"
    by (simp add: check_health_def send_def)
  have cmd: "command ?a = Create_multiple (Some ''vms.json'')"
    by simp
  have ne: "''vms.json'' \<noteq> []"
    by simp
  have pre: "create_from_configs ?w ?c ?pre [Call (health_request ?c)] = (None, ?tr1)"
    by (simp add: create_windows_vm_def VM_TEMPLATES_def)
  have hyp: "?fs ''vms.json'' = Loaded (JArr (?pre @ JObj ?kvs # ?post))
      \<and> (map_of ?kvs ''name'' = None \<or> map_of ?kvs ''template'' = None)
      \<and> create_from_configs ?w ?c ?pre [Call (health_request ?c)] = (None, ?tr1)"
    using pre by (intro conjI) simp_all
  have "main ?w ?fs ?a =
      (Uncaught (KeyError (if map_of ?kvs ''name'' = None then ''name'' else ''template'')), ?tr1)"
    using malformed_batch_file [OF h cmd ne, of ?fs, THEN conjunct2, THEN conjunct2,
        rule_format, of ?pre ?kvs ?post ?tr1, OF hyp] .
  then show ?thesis
    by (simp add: health_request_def LibGoClient_def rstrip_def session_request_def
        DEFAULT_TIMEOUT_def)
qed

section \<open>Batch isolation\<close>




end
